theory Spec2Isabelle
  imports Complex_Main "HOL-Library.Sublist"
begin

section \<open>Ensemble calibration (EMOS / NGR): a shallow embedding\<close>

text \<open>
  The development follows \<^verbatim>\<open>improver/ensemble_calibration/ensemble_calibration.py\<close>:
  the CRPS objective functions, the minimiser wrapper, the initial guess, the
  coefficient estimator, the coefficient applier and the controller.

  Conventions of the embedding:
  \<^item> a numpy scalar is an \<open>npfloat\<close>: a real number or one of the three IEEE special
    values. Arithmetic on finite values is exact (rounding to 32 or 64 bits, overflow of a
    finite result and the sign of zero are not modelled); arithmetic on the special
    values follows IEEE 754, as numpy does;
  \<^item> every \<^verbatim>\<open>raise\<close> of the source, and every exception of a library call the
    source makes, is a value \<open>Inl e\<close> of the result;
  \<^item> a cube keeps its data as one flattened field per point of its realization
    coordinate, and the lengths of its x and y coordinates;
  \<^item> library routines that are algorithms of their own (the Nelder-Mead search of scipy,
    the multivariate regression of statsmodels, the unit tables of cf_units) are
    parameters of the functions that call them.
\<close>

subsection \<open>Floating-point values\<close>

datatype npfloat = Fin real | PInf | NInf | NaN

fun isfinite :: "npfloat \<Rightarrow> bool" where
  "isfinite (Fin a) = True"
| "isfinite _ = False"

fun isnan :: "npfloat \<Rightarrow> bool" where
  "isnan NaN = True"
| "isnan _ = False"

fun fneg :: "npfloat \<Rightarrow> npfloat" where
  "fneg (Fin a) = Fin (- a)"
| "fneg PInf = NInf"
| "fneg NInf = PInf"
| "fneg NaN = NaN"

fun fadd :: "npfloat \<Rightarrow> npfloat \<Rightarrow> npfloat" where
  "fadd NaN _ = NaN"
| "fadd _ NaN = NaN"
| "fadd PInf NInf = NaN"
| "fadd NInf PInf = NaN"
| "fadd PInf _ = PInf"
| "fadd _ PInf = PInf"
| "fadd NInf _ = NInf"
| "fadd _ NInf = NInf"
| "fadd (Fin a) (Fin b) = Fin (a + b)"

definition fsub :: "npfloat \<Rightarrow> npfloat \<Rightarrow> npfloat" where
  "fsub a b = fadd a (fneg b)"

fun fmul :: "npfloat \<Rightarrow> npfloat \<Rightarrow> npfloat" where
  "fmul NaN _ = NaN"
| "fmul _ NaN = NaN"
| "fmul (Fin a) (Fin b) = Fin (a * b)"
| "fmul (Fin a) PInf = (if a = 0 then NaN else if 0 < a then PInf else NInf)"
| "fmul (Fin a) NInf = (if a = 0 then NaN else if 0 < a then NInf else PInf)"
| "fmul PInf (Fin b) = (if b = 0 then NaN else if 0 < b then PInf else NInf)"
| "fmul NInf (Fin b) = (if b = 0 then NaN else if 0 < b then NInf else PInf)"
| "fmul PInf PInf = PInf"
| "fmul PInf NInf = NInf"
| "fmul NInf PInf = NInf"
| "fmul NInf NInf = PInf"

text \<open>Division by zero is not an exception in numpy: it gives an infinity or NaN.\<close>

fun fdiv :: "npfloat \<Rightarrow> npfloat \<Rightarrow> npfloat" where
  "fdiv NaN _ = NaN"
| "fdiv _ NaN = NaN"
| "fdiv (Fin a) (Fin b) =
     (if b = 0 then (if a = 0 then NaN else if 0 < a then PInf else NInf)
      else Fin (a / b))"
| "fdiv (Fin a) PInf = Fin 0"
| "fdiv (Fin a) NInf = Fin 0"
| "fdiv PInf (Fin b) = (if 0 \<le> b then PInf else NInf)"
| "fdiv NInf (Fin b) = (if 0 \<le> b then NInf else PInf)"
| "fdiv PInf PInf = NaN"
| "fdiv PInf NInf = NaN"
| "fdiv NInf PInf = NaN"
| "fdiv NInf NInf = NaN"

fun fsqrt :: "npfloat \<Rightarrow> npfloat" where
  "fsqrt (Fin a) = (if a < 0 then NaN else Fin (sqrt a))"
| "fsqrt PInf = PInf"
| "fsqrt NInf = NaN"
| "fsqrt NaN = NaN"

fun fabs :: "npfloat \<Rightarrow> npfloat" where
  "fabs (Fin a) = Fin \<bar>a\<bar>"
| "fabs PInf = PInf"
| "fabs NInf = PInf"
| "fabs NaN = NaN"

definition fsquare :: "npfloat \<Rightarrow> npfloat" where
  "fsquare a = fmul a a"

text \<open>Comparisons with NaN are false.\<close>

fun flt :: "npfloat \<Rightarrow> npfloat \<Rightarrow> bool" where
  "flt NaN _ = False"
| "flt _ NaN = False"
| "flt (Fin a) (Fin b) = (a < b)"
| "flt (Fin a) PInf = True"
| "flt NInf (Fin b) = True"
| "flt NInf PInf = True"
| "flt _ _ = False"

definition fgt :: "npfloat \<Rightarrow> npfloat \<Rightarrow> bool" where
  "fgt a b = flt b a"

subsection \<open>Exceptions and warnings\<close>

text \<open>
  An exception is its class and its message; the message is the format string of the
  source and the arguments it is formatted with, in order.
\<close>

datatype fmt_arg =
    Str string
  | Repr string
  | Num int
  | Floats "npfloat list"
  | Names "string list"

datatype error =
    KeyError string "fmt_arg list"
  | ValueError string "fmt_arg list"
  | IndexError string "fmt_arg list"
  | TypeError string "fmt_arg list"
  | UnboundLocalError string "fmt_arg list"

fun err_args :: "error \<Rightarrow> fmt_arg list" where
  "err_args (KeyError t as) = as"
| "err_args (ValueError t as) = as"
| "err_args (IndexError t as) = as"
| "err_args (TypeError t as) = as"
| "err_args (UnboundLocalError t as) = as"

text \<open>A message names a string value when the value is one of the things formatted into it.\<close>

definition names_value :: "error \<Rightarrow> string \<Rightarrow> bool" where
  "names_value e v = (Str v \<in> set (err_args e) \<or> Repr v \<in> set (err_args e))"

datatype warning = UserWarning string "fmt_arg list" | ImportWarning string

definition bind_err :: "error + 'a \<Rightarrow> ('a \<Rightarrow> error + 'b) \<Rightarrow> error + 'b" where
  "bind_err r f = (case r of Inl e \<Rightarrow> Inl e | Inr v \<Rightarrow> f v)"

subsection \<open>Strings and dictionaries\<close>

definition lower_char :: "char \<Rightarrow> char" where
  "lower_char c =
     (case map_of (zip ''ABCDEFGHIJKLMNOPQRSTUVWXYZ'' ''abcdefghijklmnopqrstuvwxyz'') c of
        Some d \<Rightarrow> d
      | None \<Rightarrow> c)"

definition lower :: "string \<Rightarrow> string" where
  "lower s = map lower_char s"

text \<open>
  \<^verbatim>\<open>dict(pairs)\<close>: a key seen again keeps its place and takes the later value;
  iteration is in insertion order.
\<close>

fun dict_set :: "('k \<times> 'v) list \<Rightarrow> 'k \<Rightarrow> 'v \<Rightarrow> ('k \<times> 'v) list" where
  "dict_set [] k v = [(k, v)]"
| "dict_set ((k', v') # d) k v =
     (if k' = k then (k, v) # d else (k', v') # dict_set d k v)"

definition py_dict :: "('k \<times> 'v) list \<Rightarrow> ('k \<times> 'v) list" where
  "py_dict kvs = foldl (\<lambda>d (k, v). dict_set d k v) [] kvs"

definition dict_get :: "(string \<times> 'v) list \<Rightarrow> string \<Rightarrow> error + 'v" where
  "dict_get d k =
     (case map_of d k of None \<Rightarrow> Inl (KeyError ''{}'' [Repr k]) | Some v \<Rightarrow> Inr v)"

subsection \<open>Arrays\<close>

text \<open>
  \<^verbatim>\<open>np.dot(all_data, beta)\<close> for a two-dimensional \<open>all_data\<close> and a vector
  \<open>beta\<close>: the number of columns must be the length of \<open>beta\<close>.
\<close>

definition fsum :: "npfloat list \<Rightarrow> npfloat" where
  "fsum xs = foldl fadd (Fin 0) xs"

definition np_dot :: "npfloat list list \<Rightarrow> npfloat list \<Rightarrow> error + npfloat list" where
  "np_dot rows v =
     (if list_all (\<lambda>r. length r = length v) rows
      then Inr (map (\<lambda>r. fsum (map2 fmul r v)) rows)
      else Inl (ValueError ''shapes {} and {} not aligned'' []))"

text \<open>
  \<^verbatim>\<open>np.column_stack((new_col, a))\<close>, where \<open>a\<close> is a vector or a matrix with one row
  per grid point.
\<close>

datatype ndarray = A1 "npfloat list" | A2 "npfloat list list"

fun column_stack :: "npfloat list \<Rightarrow> ndarray \<Rightarrow> error + npfloat list list" where
  "column_stack c (A1 xs) =
     (if length c = length xs then Inr (map2 (\<lambda>a b. [a, b]) c xs)
      else Inl (ValueError ''all the input array dimensions must match exactly'' []))"
| "column_stack c (A2 rows) =
     (if length c = length rows then Inr (map2 (#) c rows)
      else Inl (ValueError ''all the input array dimensions must match exactly'' []))"

definition np_reshape :: "npfloat list \<Rightarrow> nat \<Rightarrow> nat \<Rightarrow> error + npfloat list" where
  "np_reshape xs ylen xlen =
     (if length xs = ylen * xlen then Inr xs
      else Inl (ValueError ''cannot reshape array of size {} into shape {}''
                  [Num (int (length xs)), Num (int ylen), Num (int xlen)]))"

subsection \<open>Cubes\<close>

record cube =
  units :: string
  time_points :: "int list"
  realization_points :: "int list"
  ylen :: nat
  xlen :: nat
  data :: "npfloat list list"

text \<open>
  The validity date of a cube is read from the first point of its time coordinate
  (\<^verbatim>\<open>num2date(...)[0]\<close> in the estimator, \<^verbatim>\<open>iris_time_to_datetime(...)[0]\<close> in the
  applier); a date is identified with that point.
\<close>

definition first_date :: "cube \<Rightarrow> error + int" where
  "first_date c =
     (case time_points c of
        [] \<Rightarrow> Inl (IndexError ''index 0 is out of bounds'' [])
      | t # _ \<Rightarrow> Inr t)"

text \<open>
  The collapse of the realization axis by \<^verbatim>\<open>iris.analysis.MEAN\<close> and
  \<^verbatim>\<open>iris.analysis.VARIANCE\<close> (the unbiased estimator, one degree of freedom less). The
  collapsed cube keeps a realization coordinate of a single point.
\<close>

definition mean_of :: "npfloat list \<Rightarrow> npfloat" where
  "mean_of xs = fdiv (fsum xs) (Fin (real (length xs)))"

definition variance_of :: "npfloat list \<Rightarrow> npfloat" where
  "variance_of xs =
     fdiv (fsum (map (\<lambda>x. fsquare (fsub x (mean_of xs))) xs))
          (Fin (real (length xs) - 1))"

definition collapsed :: "cube \<Rightarrow> (npfloat list \<Rightarrow> npfloat) \<Rightarrow> cube" where
  "collapsed c aggregator =
     c\<lparr>realization_points := [0], data := [map aggregator (transpose (data c))]\<rparr>"

text \<open>
  \<^verbatim>\<open>convert_cube_data_to_2d\<close> (of \<^verbatim>\<open>ensemble_calibration_utilities\<close>): one row per
  grid point, one column per realization.
\<close>

definition convert_cube_data_to_2d :: "cube \<Rightarrow> npfloat list list" where
  "convert_cube_data_to_2d c = transpose (data c)"

definition flatten :: "npfloat list list \<Rightarrow> npfloat list" where
  "flatten d = concat d"

subsection \<open>Names of the coefficients\<close>

text \<open>The decimal rendering \<^verbatim>\<open>"{}".format(np.int32(r))\<close> of a realization number.\<close>

definition digit_char :: "nat \<Rightarrow> char" where
  "digit_char d = ''0123456789'' ! d"

fun decimal :: "nat \<Rightarrow> string \<Rightarrow> string" where
  "decimal n acc =
     (if 10 \<le> n then decimal (n div 10) (digit_char (n mod 10) # acc)
      else digit_char n # acc)"

definition format_int :: "int \<Rightarrow> string" where
  "format_int r = (if 0 \<le> r then decimal (nat r) [] else CHR ''-'' # decimal (nat (- r)) [])"

text \<open>
  Modelled from the spec: \<^verbatim>\<open>check_predictor_of_mean_flag\<close> of
  \<^verbatim>\<open>ensemble_calibration_utilities\<close> is not among the sources; an invalid predictor
  mode is a fatal error whose message names the offending value.
\<close>

definition check_predictor_of_mean_flag :: "string \<Rightarrow> error + unit" where
  "check_predictor_of_mean_flag flag =
     (if lower flag \<in> set [''mean'', ''realizations''] then Inr ()
      else Inl (ValueError
        ''The requested value for the predictor_of_mean_flag {} is not an accepted value.''
        [Str (lower flag)]))"

text \<open>
  \<^verbatim>\<open>"{}{}".format(coeff_names[-1], np.int32(realization))\<close> for every point of the
  realization coordinate, appended to all names but the last.
\<close>

definition realization_coeff_names :: "string list \<Rightarrow> int list \<Rightarrow> error + string list" where
  "realization_coeff_names coeff_names points =
     (if points = [] then Inr (butlast coeff_names)
      else if coeff_names = [] then Inl (IndexError ''list index out of range'' [])
      else Inr (butlast coeff_names @ map (\<lambda>r. last coeff_names @ format_int r) points))"

subsection \<open>The coefficient applier\<close>

type_synonym coefficient_set = "int \<rightharpoonup> npfloat list"

type_synonym coefficient_record = "(string \<times> npfloat) list"

text \<open>
  \<^verbatim>\<open>_create_coefficient_cube\<close>: one cube per coefficient, named by the coefficient and
  holding its value; the metadata copied from the forecast is left out.
\<close>

definition create_coefficient_cube :: "npfloat list \<Rightarrow> string list \<Rightarrow> coefficient_record" where
  "create_coefficient_cube optimised_coeffs_at_date coeff_names =
     map (\<lambda>(coeff, coeff_name). (coeff_name, coeff)) (zip optimised_coeffs_at_date coeff_names)"

definition unbound_local :: "string \<Rightarrow> error" where
  "unbound_local v =
     UnboundLocalError ''local variable '{}' referenced before assignment'' [Str v]"

text \<open>
  The predicted mean of \<^verbatim>\<open>_apply_params\<close> and the cube that will carry it, by
  predictor mode.
\<close>

definition predicted_mean_of ::
  "cube \<Rightarrow> cube \<Rightarrow> (string \<times> npfloat) list \<Rightarrow> string \<Rightarrow> error + (npfloat list \<times> cube)" where
  "predicted_mean_of forecast_predictors forecast_vars optimised_coeffs_at_date flag =
     (if lower flag \<in> set [''mean''] then
        bind_err (dict_get optimised_coeffs_at_date ''alpha'') (\<lambda>alpha.
        bind_err (dict_get optimised_coeffs_at_date ''beta'') (\<lambda>beta_c.
          let beta = [alpha, beta_c];
              forecast_predictor_flat = flatten (data forecast_predictors);
              new_col = replicate (length forecast_predictor_flat) (Fin 1)
          in bind_err (column_stack new_col (A1 forecast_predictor_flat)) (\<lambda>all_data.
             bind_err (np_dot all_data beta) (\<lambda>predicted_mean.
               Inr (predicted_mean, forecast_predictors)))))
      else if lower flag \<in> set [''realizations''] then
        (let beta_values =
               map snd (filter (\<lambda>(key, v). prefix ''beta'' key) optimised_coeffs_at_date)
         in bind_err (dict_get optimised_coeffs_at_date ''alpha'') (\<lambda>alpha.
          let beta = alpha # map fsquare beta_values;
              forecast_predictor_flat = convert_cube_data_to_2d forecast_predictors;
              forecast_var_flat = flatten (data forecast_vars);
              new_col = replicate (length forecast_var_flat) (Fin 1)
          in bind_err (column_stack new_col (A2 forecast_predictor_flat)) (\<lambda>all_data.
             bind_err (np_dot all_data beta) (\<lambda>predicted_mean.
               Inr (predicted_mean, collapsed forecast_predictors mean_of)))))
      else Inl (unbound_local ''predicted_mean''))"

definition shape_mismatch_error :: "string list \<Rightarrow> npfloat list \<Rightarrow> error" where
  "shape_mismatch_error coeff_names coeffs =
     ValueError
       (''Number of coefficient names {} with names {} is not equal to the number of ''
        @ ''optimised_coeffs_at_date values {} with values {} or the number of ''
        @ ''coefficients is not greater than the number of coefficient names. ''
        @ ''Can not continue if the number of coefficient names out number ''
        @ ''the number of coefficients'')
       [Num (int (length coeff_names)), Names coeff_names,
        Num (int (length coeffs)), Floats coeffs]"

definition apply_params ::
  "cube \<Rightarrow> cube \<Rightarrow> coefficient_set \<Rightarrow> string list \<Rightarrow> string
     \<Rightarrow> error + (cube \<times> cube \<times> coefficient_record)" where
  "apply_params forecast_predictors forecast_vars optimised_coeffs coeff_names
       predictor_of_mean_flag =
     bind_err (first_date forecast_predictors) (\<lambda>date.
     case optimised_coeffs date of
       None \<Rightarrow> Inl (KeyError ''{}'' [Num date])
     | Some coeffs \<Rightarrow>
        if length coeffs \<noteq> length coeff_names then
          Inl (shape_mismatch_error coeff_names coeffs)
        else
          let optimised_coeffs_at_date = py_dict (zip coeff_names coeffs) in
          bind_err (predicted_mean_of forecast_predictors forecast_vars
                      optimised_coeffs_at_date predictor_of_mean_flag)
            (\<lambda>(predicted_mean, calibrated_forecast_predictor).
          bind_err (np_reshape predicted_mean (ylen forecast_predictors)
                      (xlen forecast_predictors)) (\<lambda>predicted_mean.
          bind_err (dict_get optimised_coeffs_at_date ''gamma'') (\<lambda>gamma.
          bind_err (dict_get optimised_coeffs_at_date ''delta'') (\<lambda>delta.
            let predicted_var =
                  map (map (\<lambda>v. fadd (fsquare gamma) (fmul (fsquare delta) v)))
                      (data forecast_vars)
            in Inr (calibrated_forecast_predictor\<lparr>data := [predicted_mean]\<rparr>,
                    forecast_vars\<lparr>data := predicted_var\<rparr>,
                    create_coefficient_cube coeffs coeff_names))))))"

record applier =
  current_forecast :: cube
  optimised_coeffs :: coefficient_set
  coeff_names :: "string list"
  predictor_of_mean_flag :: string

definition apply_params_entry :: "applier \<Rightarrow> error + (cube \<times> cube \<times> coefficient_record)" where
  "apply_params_entry self =
     bind_err (check_predictor_of_mean_flag (predictor_of_mean_flag self)) (\<lambda>_.
     bind_err
       (if lower (predictor_of_mean_flag self) \<in> set [''mean''] then
          Inr (collapsed (current_forecast self) mean_of, coeff_names self)
        else if lower (predictor_of_mean_flag self) \<in> set [''realizations''] then
          bind_err (realization_coeff_names (coeff_names self)
                      (realization_points (current_forecast self)))
            (\<lambda>names. Inr (current_forecast self, names))
        else Inl (unbound_local ''forecast_predictors''))
       (\<lambda>(forecast_predictors, names).
          let forecast_vars = collapsed (current_forecast self) variance_of
          in apply_params forecast_predictors forecast_vars (optimised_coeffs self) names
               (predictor_of_mean_flag self)))"

subsection \<open>A small forecast for concrete evaluation\<close>

text \<open>Two realizations on a grid of a single point, with the values 1 and 3.\<close>

definition two_member_forecast :: cube where
  "two_member_forecast =
     \<lparr>units = ''K'', time_points = [0], realization_points = [0, 1], ylen = 1, xlen = 1,
      data = [[Fin 1], [Fin 3]]\<rparr>"

definition default_coeff_names :: "string list" where
  "default_coeff_names = [''gamma'', ''delta'', ''alpha'', ''beta'']"

text \<open>A collapsed field of a single grid point holding the value 2.\<close>

definition one_point_field :: cube where
  "one_point_field =
     \<lparr>units = ''K'', time_points = [0], realization_points = [0], ylen = 1, xlen = 1,
      data = [[Fin 2]]\<rparr>"


subsection \<open>More array operations\<close>

definition np_index :: "npfloat list \<Rightarrow> nat \<Rightarrow> error + npfloat" where
  "np_index xs i =
     (if i < length xs then Inr (xs ! i)
      else Inl (IndexError ''index {} is out of bounds for axis 0 with size {}''
                  [Num (int i), Num (int (length xs))]))"

text \<open>
  The operands of an elementwise operation on two vectors, after numpy's broadcasting:
  equal lengths pair up, a vector of length one is repeated, anything else is an error.
\<close>

definition broadcast :: "'a list \<Rightarrow> 'b list \<Rightarrow> error + ('a \<times> 'b) list" where
  "broadcast xs ys =
     (if length xs = length ys then Inr (zip xs ys)
      else if length xs = 1 then Inr (map (\<lambda>y. (hd xs, y)) ys)
      else if length ys = 1 then Inr (map (\<lambda>x. (x, hd ys)) xs)
      else Inl (ValueError ''operands could not be broadcast together with shapes {} {}''
                  [Num (int (length xs)), Num (int (length ys))]))"

text \<open>\<^verbatim>\<open>np.min\<close> propagates NaN and refuses an empty array.\<close>

definition fmin :: "npfloat \<Rightarrow> npfloat \<Rightarrow> npfloat" where
  "fmin a b = (if isnan a \<or> isnan b then NaN else if flt b a then b else a)"

definition np_min :: "npfloat list \<Rightarrow> error + npfloat" where
  "np_min xs =
     (case xs of
        [] \<Rightarrow> Inl (ValueError
                ''zero-size array to reduction operation minimum which has no identity'' [])
      | x # rest \<Rightarrow> Inr (foldl fmin x rest))"

text \<open>\<^verbatim>\<open>np.nansum\<close> adds the elements with every NaN taken as zero.\<close>

definition nansum :: "npfloat list \<Rightarrow> npfloat" where
  "nansum xs = fsum (map (\<lambda>x. if isnan x then Fin 0 else x) xs)"

subsection \<open>The standard normal distribution\<close>

text \<open>
  \<^verbatim>\<open>scipy.stats.norm.pdf\<close> and \<^verbatim>\<open>norm.cdf\<close>. The distribution function is given by
  its power series about zero, which converges everywhere.
\<close>

definition std_normal_pdf :: "real \<Rightarrow> real" where
  "std_normal_pdf x = exp (- (x\<^sup>2) / 2) / sqrt (2 * pi)"

definition std_normal_cdf :: "real \<Rightarrow> real" where
  "std_normal_cdf x =
     1 / 2 + (\<Sum>n. (- 1) ^ n * x ^ (2 * n + 1) / (2 ^ n * fact n * real (2 * n + 1)))
             / sqrt (2 * pi)"

fun norm_pdf :: "npfloat \<Rightarrow> npfloat" where
  "norm_pdf (Fin x) = Fin (std_normal_pdf x)"
| "norm_pdf PInf = Fin 0"
| "norm_pdf NInf = Fin 0"
| "norm_pdf NaN = NaN"

fun norm_cdf :: "npfloat \<Rightarrow> npfloat" where
  "norm_cdf (Fin x) = Fin (std_normal_cdf x)"
| "norm_cdf PInf = Fin 1"
| "norm_cdf NInf = Fin 0"
| "norm_cdf NaN = NaN"

subsection \<open>The CRPS objective functions\<close>

definition BAD_VALUE :: npfloat where
  "BAD_VALUE = Fin 999999"

text \<open>
  The lines the two objective functions share: \<open>beta\<close> by predictor mode, then
  \<open>mu = all_data . beta\<close> and \<open>sigma = sqrt (gamma\<^sup>2 + delta\<^sup>2 * forecast_var)\<close>. When the
  mode is neither of the two, \<open>beta\<close> is unbound where \<^verbatim>\<open>np.dot\<close> reads it.
\<close>

definition mu_sigma ::
  "npfloat list \<Rightarrow> ndarray \<Rightarrow> npfloat list \<Rightarrow> npfloat list \<Rightarrow> string
     \<Rightarrow> error + (npfloat list \<times> npfloat list)" where
  "mu_sigma initial_guess forecast_predictor truth forecast_var flag =
     bind_err
       (if lower flag \<in> set [''mean''] then Inr (Some (drop 2 initial_guess))
        else if lower flag \<in> set [''realizations''] then
          bind_err (np_index initial_guess 2) (\<lambda>alpha.
            Inr (Some (alpha # map fsquare (drop 3 initial_guess))))
        else Inr None)
       (\<lambda>beta.
     let new_col = replicate (length truth) (Fin 1) in
     bind_err (column_stack new_col forecast_predictor) (\<lambda>all_data.
     bind_err (case beta of None \<Rightarrow> Inl (unbound_local ''beta'')
               | Some b \<Rightarrow> np_dot all_data b) (\<lambda>mu.
     bind_err (np_index initial_guess 0) (\<lambda>gamma.
     bind_err (np_index initial_guess 1) (\<lambda>delta.
       Inr (mu, map (\<lambda>v. fsqrt (fadd (fsquare gamma) (fmul (fsquare delta) v)))
                    forecast_var))))))"

text \<open>
  The value summed at one grid point, from the truth, \<open>mu\<close> and \<open>sigma\<close> there. Every
  vector of the source expression has the shape of the broadcast operands, so the
  vectorised expression is this function applied at each point.
\<close>

definition normal_crps_term :: "npfloat \<Rightarrow> npfloat \<Rightarrow> npfloat \<Rightarrow> npfloat \<Rightarrow> npfloat" where
  "normal_crps_term sqrt_pi truth mu sigma =
     (let xz = fdiv (fsub truth mu) sigma;
          normal_cdf = norm_cdf xz;
          normal_pdf = norm_pdf xz
      in fmul sigma
           (fsub (fadd (fmul xz (fsub (fmul (Fin 2) normal_cdf) (Fin 1)))
                       (fmul (Fin 2) normal_pdf))
                 (fdiv (Fin 1) sqrt_pi)))"

definition truncated_normal_crps_term ::
  "npfloat \<Rightarrow> npfloat \<Rightarrow> npfloat \<Rightarrow> npfloat \<Rightarrow> npfloat" where
  "truncated_normal_crps_term sqrt_pi truth mu sigma =
     (let xz = fdiv (fsub truth mu) sigma;
          normal_cdf = norm_cdf xz;
          normal_pdf = norm_pdf xz;
          x0 = fdiv mu sigma;
          normal_cdf_0 = norm_cdf x0;
          normal_cdf_root_two = norm_cdf (fmul (Fin (sqrt 2)) x0)
      in fmul (fdiv sigma (fsquare normal_cdf_0))
           (fsub (fadd (fmul (fmul xz normal_cdf_0)
                          (fsub (fadd (fmul (Fin 2) normal_cdf) normal_cdf_0) (Fin 2)))
                       (fmul (fmul (Fin 2) normal_pdf) normal_cdf_0))
                 (fdiv normal_cdf_root_two sqrt_pi)))"

definition normal_crps_minimiser ::
  "npfloat list \<Rightarrow> ndarray \<Rightarrow> npfloat list \<Rightarrow> npfloat list \<Rightarrow> npfloat \<Rightarrow> string
     \<Rightarrow> error + npfloat" where
  "normal_crps_minimiser initial_guess forecast_predictor truth forecast_var sqrt_pi flag =
     bind_err (mu_sigma initial_guess forecast_predictor truth forecast_var flag)
       (\<lambda>(mu, sigma).
     bind_err (broadcast (zip truth mu) sigma) (\<lambda>points.
       let result = nansum (map (\<lambda>((t, m), s). normal_crps_term sqrt_pi t m s) points) in
       bind_err (np_min (map (\<lambda>((t, m), s). fdiv m s) points)) (\<lambda>lowest.
         Inr (if \<not> isfinite lowest then BAD_VALUE else result))))"

definition truncated_normal_crps_minimiser ::
  "npfloat list \<Rightarrow> ndarray \<Rightarrow> npfloat list \<Rightarrow> npfloat list \<Rightarrow> npfloat \<Rightarrow> string
     \<Rightarrow> error + npfloat" where
  "truncated_normal_crps_minimiser initial_guess forecast_predictor truth forecast_var
       sqrt_pi flag =
     bind_err (mu_sigma initial_guess forecast_predictor truth forecast_var flag)
       (\<lambda>(mu, sigma).
     bind_err (broadcast (zip truth mu) sigma) (\<lambda>points.
       let result =
             nansum (map (\<lambda>((t, m), s). truncated_normal_crps_term sqrt_pi t m s) points) in
       bind_err (np_min (map (\<lambda>((t, m), s). fdiv m s) points)) (\<lambda>lowest.
         Inr (if \<not> isfinite lowest \<or> flt lowest (Fin (- 3)) then BAD_VALUE
              else result))))"

subsection \<open>Library routines taken as parameters\<close>

record opt_result =
  opt_x :: "npfloat list"
  opt_success :: bool
  opt_message :: string
  opt_allvecs :: "npfloat list list"

text \<open>
  \<open>units_convert u v\<close> is the conversion of values from unit \<open>u\<close> to unit \<open>v\<close> of
  cf_units, or \<open>None\<close> when the units are not convertible; \<open>scipy_minimize f x0 maxiter\<close>
  is \<^verbatim>\<open>scipy.optimize.minimize\<close> with the Nelder-Mead method and all iterates returned;
  \<open>sm_ols y rows\<close> is the parameter vector of the statsmodels least-squares fit of \<open>y\<close>
  on the rows with a constant added; \<open>statsmodels_available\<close> tells whether the module
  can be imported.
\<close>

record libs =
  units_convert :: "string \<Rightarrow> string \<Rightarrow> (npfloat \<Rightarrow> npfloat) option"
  scipy_minimize :: "(npfloat list \<Rightarrow> error + npfloat) \<Rightarrow> npfloat list \<Rightarrow> nat
                       \<Rightarrow> error + opt_result"
  sm_ols :: "npfloat list \<Rightarrow> npfloat list list \<Rightarrow> error + npfloat list"
  statsmodels_available :: bool

text \<open>\<^verbatim>\<open>cube.convert_units(unit)\<close> changes the cube in place: its data and its unit.\<close>

definition convert_units :: "libs \<Rightarrow> cube \<Rightarrow> string \<Rightarrow> error + cube" where
  "convert_units env c unit =
     (case units_convert env (units c) unit of
        None \<Rightarrow> Inl (ValueError ''Unable to convert from {} to {}.'' [Repr (units c), Repr unit])
      | Some f \<Rightarrow> Inr (c\<lparr>units := unit, data := map (map f) (data c)\<rparr>))"

subsection \<open>The minimiser\<close>

definition MAX_ITERATIONS :: nat where
  "MAX_ITERATIONS = 200"

definition TOLERATED_PERCENTAGE_CHANGE :: npfloat where
  "TOLERATED_PERCENTAGE_CHANGE = Fin 5"

definition minimisation_dict ::
  "(string \<times> (npfloat list \<Rightarrow> ndarray \<Rightarrow> npfloat list \<Rightarrow> npfloat list \<Rightarrow> npfloat \<Rightarrow> string
                 \<Rightarrow> error + npfloat)) list" where
  "minimisation_dict =
     [(''gaussian'', normal_crps_minimiser),
      (''truncated gaussian'', truncated_normal_crps_minimiser)]"

definition unsupported_distribution :: "string \<Rightarrow> error" where
  "unsupported_distribution distribution =
     KeyError ''Distribution requested {} is not supported in {}Error message is {}''
       [Str distribution, Names (map fst minimisation_dict), Repr distribution]"

text \<open>
  \<^verbatim>\<open>calculate_percentage_change_in_last_iteration\<close>: the warnings it emits, or the
  \<^verbatim>\<open>IndexError\<close> of reading the last two iterates of a shorter list.
\<close>

definition calculate_percentage_change_in_last_iteration ::
  "npfloat list list \<Rightarrow> error + warning list" where
  "calculate_percentage_change_in_last_iteration allvecs =
     (if length allvecs < 2 then Inl (IndexError ''list index out of range'' [])
      else
        let last_vec = last allvecs;
            last_but_one = last (butlast allvecs)
        in bind_err (broadcast last_vec last_but_one) (\<lambda>pairs.
             let last_iteration_percentage_change =
                   map (\<lambda>(a, b). fmul (fabs (fdiv (fsub a b) b)) (Fin 100)) pairs
             in Inr (if list_ex (\<lambda>p. fgt p TOLERATED_PERCENTAGE_CHANGE)
                          last_iteration_percentage_change
                     then [UserWarning
                             (''The final iteration resulted in a percentage change that is ''
                              @ ''greater than the accepted threshold of 5% i.e. {}. ''
                              @ ''A satisfactory minimisation has not been achieved. ''
                              @ ''Last iteration: {}, Last-but-one iteration: {}'')
                             [Floats last_iteration_percentage_change, Floats last_vec,
                              Floats last_but_one]]
                     else [])))"

text \<open>
  \<^verbatim>\<open>crps_minimiser_wrapper\<close>. The casts to 32-bit floats are the identity of the
  embedding; \<open>sqrt_pi\<close> is \<^verbatim>\<open>np.sqrt(np.pi)\<close>.
\<close>

definition crps_minimiser_wrapper ::
  "libs \<Rightarrow> npfloat list \<Rightarrow> cube \<Rightarrow> cube \<Rightarrow> cube \<Rightarrow> string \<Rightarrow> string
     \<Rightarrow> error + (npfloat list \<times> warning list)" where
  "crps_minimiser_wrapper env initial_guess forecast_predictor truth forecast_var flag
       distribution =
     (case map_of minimisation_dict distribution of
        None \<Rightarrow> Inl (unsupported_distribution distribution)
      | Some minimisation_function \<Rightarrow>
        bind_err (check_predictor_of_mean_flag flag) (\<lambda>_.
        bind_err
          (if lower flag \<in> set [''mean''] then
             Inr (A1 (flatten (data forecast_predictor)), flatten (data truth),
                  flatten (data forecast_var))
           else if lower flag \<in> set [''realizations''] then
             Inr (A2 (convert_cube_data_to_2d forecast_predictor), flatten (data truth),
                  flatten (data forecast_var))
           else Inl (unbound_local ''forecast_predictor_data''))
          (\<lambda>(forecast_predictor_data, truth_data, forecast_var_data).
        let sqrt_pi = Fin (sqrt pi) in
        bind_err (scipy_minimize env
                    (\<lambda>x. minimisation_function x forecast_predictor_data truth_data
                            forecast_var_data sqrt_pi flag)
                    initial_guess MAX_ITERATIONS) (\<lambda>optimised_coeffs.
        let w1 = (if \<not> opt_success optimised_coeffs
                  then [UserWarning
                          ''Minimisation did not result in convergence after {} iterations. {}''
                          [Num (int MAX_ITERATIONS), Str (opt_message optimised_coeffs)]]
                  else [])
        in bind_err (calculate_percentage_change_in_last_iteration
                       (opt_allvecs optimised_coeffs)) (\<lambda>w2.
             Inr (opt_x optimised_coeffs, w1 @ w2))))))"

subsection \<open>The initial guess\<close>

text \<open>
  \<^verbatim>\<open>scipy.stats.linregress(x, y)\<close>: slope and intercept from the means and the biased
  covariances, \<open>slope = cov(x, y) / var(x)\<close> and \<open>intercept = mean y - slope * mean x\<close>.
\<close>

definition linregress :: "npfloat list \<Rightarrow> npfloat list \<Rightarrow> npfloat \<times> npfloat" where
  "linregress x y =
     (let xmean = mean_of x;
          ymean = mean_of y;
          ssxm = mean_of (map (\<lambda>a. fsquare (fsub a xmean)) x);
          ssxym = mean_of (map2 (\<lambda>a b. fmul (fsub a xmean) (fsub b ymean)) x y);
          slope = fdiv ssxym ssxm;
          intercept = fsub ymean (fmul slope xmean)
      in (slope, intercept))"

text \<open>\<^verbatim>\<open>np.repeat(1, no_of_realizations).tolist()\<close>; no count is a type error.\<close>

definition repeat_ones :: "nat option \<Rightarrow> error + npfloat list" where
  "repeat_ones no_of_realizations =
     (case no_of_realizations of
        None \<Rightarrow> Inl (TypeError ''an integer is required'' [])
      | Some r \<Rightarrow> Inr (replicate r (Fin 1)))"

text \<open>The grid points where neither the truth nor the predictor is NaN, as pairs.\<close>

definition combined_not_nan :: "npfloat list \<Rightarrow> npfloat list \<Rightarrow> (npfloat \<times> npfloat) list" where
  "combined_not_nan truth_flat forecast_flat =
     filter (\<lambda>(t, f). \<not> isnan t \<and> \<not> isnan f) (zip truth_flat forecast_flat)"

definition row_stack_error :: error where
  "row_stack_error = ValueError ''all the input array dimensions must match exactly'' []"

definition compute_initial_guess ::
  "libs \<Rightarrow> bool \<Rightarrow> cube \<Rightarrow> cube \<Rightarrow> string \<Rightarrow> bool \<Rightarrow> nat option \<Rightarrow> error + npfloat list" where
  "compute_initial_guess env statsmodels_found truth forecast_predictor flag
       estimate_coefficients_from_linear_model_flag no_of_realizations =
     (if lower flag \<in> set [''mean''] \<and> \<not> estimate_coefficients_from_linear_model_flag then
        Inr [Fin 1, Fin 1, Fin 0, Fin 1]
      else if lower flag \<in> set [''realizations'']
              \<and> \<not> estimate_coefficients_from_linear_model_flag then
        bind_err (repeat_ones no_of_realizations) (\<lambda>ones.
          Inr ([Fin 1, Fin 1, Fin 0] @ ones))
      else if estimate_coefficients_from_linear_model_flag then
        (if lower flag \<in> set [''mean''] then
           let truth_flat = flatten (data truth);
               forecast_flat = flatten (data forecast_predictor)
           in if length truth_flat \<noteq> length forecast_flat then Inl row_stack_error
              else
                let valid = combined_not_nan truth_flat forecast_flat;
                    (gradient, intercept) =
                      (if valid = [] then (NaN, NaN)
                       else linregress (map snd valid) (map fst valid))
                in Inr [Fin 1, Fin 1, intercept, gradient]
         else if lower flag \<in> set [''realizations''] then
           (if statsmodels_found then
              let truth_data = flatten (data truth);
                  forecast_data = data forecast_predictor
              in if \<not> list_all (\<lambda>row. length row = length truth_data) forecast_data
                 then Inl row_stack_error
                 else
                   let valid =
                         filter (\<lambda>(t, fs). \<not> isnan t \<and> list_all (\<lambda>f. \<not> isnan f) fs)
                           (zip truth_data (transpose forecast_data))
                   in bind_err (sm_ols env (map fst valid) (map snd valid)) (\<lambda>params.
                        case params of
                          [] \<Rightarrow> Inl (IndexError ''index 0 is out of bounds'' [])
                        | intercept # gradient \<Rightarrow>
                            Inr ([Fin 1, Fin 1, intercept] @ gradient))
            else
              bind_err (repeat_ones no_of_realizations) (\<lambda>ones.
                Inr ([Fin 1, Fin 1, Fin 0] @ ones)))
         else Inl (unbound_local ''initial_guess''))
      else Inl (unbound_local ''initial_guess''))"

subsection \<open>The coefficient estimator\<close>

definition ESTIMATE_COEFFICIENTS_FROM_LINEAR_MODEL_FLAG :: bool where
  "ESTIMATE_COEFFICIENTS_FROM_LINEAR_MODEL_FLAG = True"

record estimator =
  est_distribution :: string
  est_desired_units :: string
  est_predictor_of_mean_flag :: string
  est_coeff_names :: "string list"
  statsmodels_found :: bool

text \<open>
  The constructor: when statsmodels cannot be imported and the realizations are the
  predictor, one \<^verbatim>\<open>ImportWarning\<close> is emitted.
\<close>

definition estimator_init :: "libs \<Rightarrow> string \<Rightarrow> string \<Rightarrow> string \<Rightarrow> estimator \<times> warning list" where
  "estimator_init env distribution desired_units flag =
     (\<lparr>est_distribution = distribution, est_desired_units = desired_units,
       est_predictor_of_mean_flag = flag,
       est_coeff_names = [''gamma'', ''delta'', ''alpha'', ''beta''],
       statsmodels_found = statsmodels_available env\<rparr>,
      if \<not> statsmodels_available env \<and> lower flag \<in> set [''realizations'']
      then [ImportWarning
              (''The statsmodels can not be imported. Will not be able to calculate an ''
               @ ''initial guess from the individual ensemble realizations. A default ''
               @ ''initial guess will be used without estimating coefficients from a ''
               @ ''linear model.'')]
      else [])"

text \<open>
  The outcome of an estimation: the historic forecast and the truth as the call leaves
  them (both are converted in place), and the coefficients with the warnings of the
  minimiser, or the exception raised.
\<close>

record estimation =
  historic_after :: cube
  truth_after :: cube
  outcome :: "error + (coefficient_set \<times> warning list)"

definition np_any_isnan :: "npfloat list \<Rightarrow> bool" where
  "np_any_isnan xs = list_ex isnan xs"

text \<open>
  The part of \<^verbatim>\<open>estimate_coefficients_for_ngr\<close> after the unit conversions: the
  predictor by mode (\<open>select_predictor\<close>), the variance, the initial guess, the minimiser.
  \<^verbatim>\<open>initial_guess\<close> is never a local before line 621, so the initial guess is always
  computed.
\<close>

definition select_predictor :: "string \<Rightarrow> cube \<Rightarrow> error + (nat option \<times> cube)" where
  "select_predictor flag historic_forecast =
     (if lower flag \<in> set [''mean''] then
        Inr (None, collapsed historic_forecast mean_of)
      else if lower flag \<in> set [''realizations''] then
        Inr (Some (length (realization_points historic_forecast)), historic_forecast)
      else Inl (unbound_local ''forecast_predictor''))"

definition estimate_from ::
  "libs \<Rightarrow> estimator \<Rightarrow> int \<Rightarrow> cube \<Rightarrow> cube \<Rightarrow> error + (coefficient_set \<times> warning list)" where
  "estimate_from env self date historic_forecast truth =
     (let flag = est_predictor_of_mean_flag self in
      bind_err (select_predictor flag historic_forecast)
        (\<lambda>(no_of_realizations, forecast_predictor).
      let forecast_var = collapsed historic_forecast variance_of in
      bind_err (compute_initial_guess env (statsmodels_found self) truth forecast_predictor
                  flag ESTIMATE_COEFFICIENTS_FROM_LINEAR_MODEL_FLAG no_of_realizations)
        (\<lambda>initial_guess.
      let nan_in_initial_guess = np_any_isnan initial_guess in
      if \<not> nan_in_initial_guess then
        bind_err (crps_minimiser_wrapper env initial_guess forecast_predictor truth
                    forecast_var flag (lower (est_distribution self)))
          (\<lambda>(coeffs, warnings). Inr ([date \<mapsto> coeffs], warnings))
      else Inr ([date \<mapsto> initial_guess], []))))"

definition estimate_coefficients_for_ngr ::
  "libs \<Rightarrow> estimator \<Rightarrow> cube \<Rightarrow> cube \<Rightarrow> cube \<Rightarrow> estimation" where
  "estimate_coefficients_for_ngr env self forecast historic_forecast truth =
     (case check_predictor_of_mean_flag (est_predictor_of_mean_flag self) of
        Inl e \<Rightarrow> \<lparr>historic_after = historic_forecast, truth_after = truth, outcome = Inl e\<rparr>
      | Inr _ \<Rightarrow>
     (case first_date forecast of
        Inl e \<Rightarrow> \<lparr>historic_after = historic_forecast, truth_after = truth, outcome = Inl e\<rparr>
      | Inr date \<Rightarrow>
     (case convert_units env historic_forecast (est_desired_units self) of
        Inl e \<Rightarrow> \<lparr>historic_after = historic_forecast, truth_after = truth, outcome = Inl e\<rparr>
      | Inr historic_forecast' \<Rightarrow>
     (case convert_units env truth (est_desired_units self) of
        Inl e \<Rightarrow> \<lparr>historic_after = historic_forecast', truth_after = truth, outcome = Inl e\<rparr>
      | Inr truth' \<Rightarrow>
          \<lparr>historic_after = historic_forecast', truth_after = truth',
           outcome = estimate_from env self date historic_forecast' truth'\<rparr>))))"

subsection \<open>The controller\<close>

record ensemble_calibration =
  calibration_method :: string
  ec_distribution :: string
  ec_desired_units :: string
  ec_predictor_of_mean_flag :: string

definition format_calibration_method :: "string \<Rightarrow> string" where
  "format_calibration_method s =
     map (\<lambda>c. if c = CHR ''_'' then CHR '' '' else c) (lower s)"

definition unsupported_method :: "string \<Rightarrow> error" where
  "unsupported_method m =
     ValueError ''Other calibration methods are not available. {} is not available''
       [Str (format_calibration_method m)]"

text \<open>
  \<^verbatim>\<open>process\<close>. The estimator is built and run only under both tests; the \<^verbatim>\<open>else\<close>
  belongs to the test of the calibration method. With a supported method and a
  distribution outside the list neither \<^verbatim>\<open>ec\<close> nor \<^verbatim>\<open>optimised_coeffs\<close> is bound, and
  building the applier reads \<^verbatim>\<open>optimised_coeffs\<close> first. The final casts to 32-bit
  floats are the identity of the embedding.
\<close>

definition process ::
  "libs \<Rightarrow> ensemble_calibration \<Rightarrow> cube \<Rightarrow> cube \<Rightarrow> cube \<Rightarrow> error + (cube \<times> cube)" where
  "process env self forecast historic_forecast truth =
     bind_err (check_predictor_of_mean_flag (ec_predictor_of_mean_flag self)) (\<lambda>_.
     bind_err
       (if format_calibration_method (calibration_method self)
             \<in> set [''ensemble model output statistics'',
                     ''nonhomogeneous gaussian regression''] then
          (if format_calibration_method (ec_distribution self)
                \<in> set [''gaussian'', ''truncated gaussian''] then
             let (ec, ws) = estimator_init env (ec_distribution self) (ec_desired_units self)
                              (ec_predictor_of_mean_flag self)
             in bind_err (outcome (estimate_coefficients_for_ngr env ec forecast
                                     historic_forecast truth))
                  (\<lambda>(coeffs, warnings). Inr (Some (ec, coeffs)))
           else Inr None)
        else Inl (unsupported_method (calibration_method self)))
       (\<lambda>bound.
     case bound of
       None \<Rightarrow> Inl (unbound_local ''optimised_coeffs'')
     | Some (ec, coeffs) \<Rightarrow>
         bind_err (apply_params_entry
                     \<lparr>current_forecast = forecast, optimised_coeffs = coeffs,
                      coeff_names = est_coeff_names ec,
                      predictor_of_mean_flag = ec_predictor_of_mean_flag self\<rparr>)
           (\<lambda>(calibrated_forecast_predictor, calibrated_forecast_variance, coefficients).
              Inr (calibrated_forecast_predictor, calibrated_forecast_variance))))"

text \<open>
  A library environment for concrete evaluation: kelvin converts to celsius and every unit
  to itself, the search returns its starting point at once, statsmodels is missing.
\<close>

definition example_libs :: libs where
  "example_libs =
     \<lparr>units_convert =
        (\<lambda>u v. if u = v then Some (\<lambda>x. x)
                else if u = ''K'' \<and> v = ''celsius'' then Some (\<lambda>x. fsub x (Fin 273.15))
                else None),
      scipy_minimize =
        (\<lambda>f x0 maxiter. Inr \<lparr>opt_x = x0, opt_success = True, opt_message = [],
                                opt_allvecs = [x0, x0]\<rparr>),
      sm_ols = (\<lambda>y rows. Inl (ValueError ''no statsmodels'' [])),
      statsmodels_available = False\<rparr>"


text \<open>A historic forecast without a single valid value, and a truth field.\<close>

definition nan_historic_forecast :: cube where
  "nan_historic_forecast =
     \<lparr>units = ''K'', time_points = [0], realization_points = [0, 1], ylen = 1, xlen = 1,
      data = [[NaN], [NaN]]\<rparr>"

definition one_point_truth :: cube where
  "one_point_truth =
     \<lparr>units = ''K'', time_points = [0], realization_points = [0], ylen = 1, xlen = 1,
      data = [[Fin 274.15]]\<rparr>"

definition example_estimator :: estimator where
  "example_estimator = fst (estimator_init example_libs ''gaussian'' ''celsius'' ''mean'')"

subsection \<open>Ordinary least squares, as the specification names it\<close>

text \<open>
  The closed form of the least-squares line \<open>y = intercept + slope * x\<close> through the
  points \<open>(x\<^sub>i, y\<^sub>i)\<close>, from the sums of the data. These two definitions follow the
  specification, not the source; they are what \<open>linregress\<close> is compared with.
\<close>

definition ols_denominator :: "real list \<Rightarrow> real" where
  "ols_denominator xs =
     real (length xs) * sum_list (map (\<lambda>x. x * x) xs) - sum_list xs * sum_list xs"

definition ols_slope :: "real list \<Rightarrow> real list \<Rightarrow> real" where
  "ols_slope xs ys =
     (real (length xs) * sum_list (map2 (*) xs ys) - sum_list xs * sum_list ys)
       / ols_denominator xs"

definition ols_intercept :: "real list \<Rightarrow> real list \<Rightarrow> real" where
  "ols_intercept xs ys = (sum_list ys - ols_slope xs ys * sum_list xs) / real (length xs)"




section \<open>Properties\<close>

subsection \<open>The coefficient applier\<close>

text \<open>
  Claim C5. When the coefficient vector stored for the validity date of the forecast has a
  length different from the number of coefficient names, \<^verbatim>\<open>_apply_params\<close> raises the
  shape-mismatch \<^verbatim>\<open>ValueError\<close>: the result is that error and no calibrated output, in
  every predictor mode and whatever the fields hold.
\<close>

theorem apply_params_shape_mismatch:
  assumes "first_date forecast_predictors = Inr date"
    and "coeff_set date = Some coeffs"
    and "length coeffs \<noteq> length names"
  shows "apply_params forecast_predictors forecast_vars coeff_set names flag
           = Inl (shape_mismatch_error names coeffs)"
  using assms by (simp add: apply_params_def bind_err_def)

theorem apply_params_shape_mismatch_witness:
  "first_date two_member_forecast = Inr 0
   \<and> [0 \<mapsto> [Fin 1, Fin 1, Fin 0]] (0::int) = Some [Fin 1, Fin 1, Fin 0]
   \<and> length [Fin 1, Fin 1, Fin 0] \<noteq> length default_coeff_names
   \<and> apply_params two_member_forecast two_member_forecast [0 \<mapsto> [Fin 1, Fin 1, Fin 0]]
        default_coeff_names ''mean''
      = Inl (shape_mismatch_error default_coeff_names [Fin 1, Fin 1, Fin 0])"
proof -
  have d: "first_date two_member_forecast = Inr 0"
    by (simp add: first_date_def two_member_forecast_def)
  have l: "length [Fin 1, Fin 1, Fin 0] \<noteq> length default_coeff_names"
    by (simp add: default_coeff_names_def)
  have c: "[0 \<mapsto> [Fin 1, Fin 1, Fin 0]] (0::int) = Some [Fin 1, Fin 1, Fin 0]"
    by simp
  show ?thesis
    using apply_params_shape_mismatch
      [where forecast_predictors = two_member_forecast and date = 0
         and coeff_set = "[0 \<mapsto> [Fin 1, Fin 1, Fin 0]]" and coeffs = "[Fin 1, Fin 1, Fin 0]"
         and names = default_coeff_names and forecast_vars = two_member_forecast
         and flag = "''mean''", OF d c l] d l
    by simp
qed






subsection \<open>Identity calibration\<close>

lemma fmul_one [simp]: "fmul x (Fin 1) = x" "fmul (Fin 1) x = x"
  by (cases x; simp)+

lemma fadd_zero [simp]: "fadd (Fin 0) x = x" "fadd x (Fin 0) = x"
  by (cases x; simp)+




declare decimal.simps [simp del]










lemma fsum_pair: "fsum [Fin 0, x] = x"
  by (simp add: fsum_def)




lemma variance_identity: "map (map (\<lambda>v. fadd (fsquare (Fin 0)) (fmul (fsquare (Fin 1)) v))) d = d"
  by (simp add: fsquare_def map_idI)


lemma first_date_collapsed [simp]: "first_date (collapsed c f) = first_date c"
  by (simp add: first_date_def collapsed_def)

lemma collapsed_sel [simp]:
  "ylen (collapsed c f) = ylen c" "xlen (collapsed c f) = xlen c"
  "data (collapsed c f) = [map f (transpose (data c))]"
  by (simp_all add: collapsed_def)

























subsection \<open>The initial guess\<close>

text \<open>
  Claim C8. Without regression \<^verbatim>\<open>compute_initial_guess\<close> returns \<open>[1, 1, 0, 1]\<close> in
  mean mode and \<open>[1, 1, 0]\<close> followed by \<open>r\<close> ones in realizations mode with \<open>r\<close>
  realizations; in realizations mode with regression requested and statsmodels not found
  it returns the same default, and the constructor has then emitted exactly one warning.
\<close>

theorem compute_initial_guess_default:
  "(lower flag = ''mean'' \<longrightarrow>
      compute_initial_guess env sf truth fp flag False n = Inr [Fin 1, Fin 1, Fin 0, Fin 1])
   \<and> (lower flag = ''realizations'' \<longrightarrow>
        compute_initial_guess env sf truth fp flag False (Some r)
          = Inr ([Fin 1, Fin 1, Fin 0] @ replicate r (Fin 1)))
   \<and> (lower flag = ''realizations'' \<longrightarrow>
        compute_initial_guess env False truth fp flag True (Some r)
          = Inr ([Fin 1, Fin 1, Fin 0] @ replicate r (Fin 1)))
   \<and> (lower flag = ''realizations'' \<and> \<not> statsmodels_available env \<longrightarrow>
        \<not> statsmodels_found (fst (estimator_init env distribution desired_units flag))
        \<and> length (snd (estimator_init env distribution desired_units flag)) = 1)"
  by (simp add: compute_initial_guess_def repeat_ones_def bind_err_def estimator_init_def)

theorem compute_initial_guess_default_witness:
  "lower ''mean'' = ''mean'' \<and> lower ''Realizations'' = ''realizations''
   \<and> \<not> statsmodels_available example_libs
   \<and> compute_initial_guess example_libs False one_point_truth one_point_field ''mean'' False None
       = Inr [Fin 1, Fin 1, Fin 0, Fin 1]
   \<and> compute_initial_guess example_libs False one_point_truth two_member_forecast
        ''Realizations'' False (Some 2) = Inr [Fin 1, Fin 1, Fin 0, Fin 1, Fin 1]
   \<and> compute_initial_guess example_libs False one_point_truth two_member_forecast
        ''Realizations'' True (Some 2) = Inr [Fin 1, Fin 1, Fin 0, Fin 1, Fin 1]
   \<and> length (snd (estimator_init example_libs ''gaussian'' ''K'' ''Realizations'')) = 1"
proof -
  have m: "lower ''mean'' = ''mean''" and r: "lower ''Realizations'' = ''realizations''"
    by (simp_all add: lower_def lower_char_def)
  have s: "\<not> statsmodels_available example_libs"
    by (simp add: example_libs_def)
  have two: "replicate 2 (Fin 1) = [Fin 1, Fin 1]"
    by (simp add: numeral_2_eq_2)
  from compute_initial_guess_default
         [where flag = "''mean''" and env = example_libs and sf = False
            and truth = one_point_truth and fp = one_point_field and n = None]
       compute_initial_guess_default
         [where flag = "''Realizations''" and env = example_libs and sf = False
            and truth = one_point_truth and fp = two_member_forecast and r = 2
            and distribution = "''gaussian''" and desired_units = "''K''"]
       m r s two
  show ?thesis by simp
qed

subsection \<open>The coefficient estimator\<close>

lemma convert_units_minimize [simp]:
  "convert_units (env\<lparr>scipy_minimize := m\<rparr>) c u = convert_units env c u"
  by (simp add: convert_units_def)

lemma compute_initial_guess_minimize [simp]:
  "compute_initial_guess (env\<lparr>scipy_minimize := m\<rparr>) sf t fp flag e n
     = compute_initial_guess env sf t fp flag e n"
  by (simp add: compute_initial_guess_def Let_def)

text \<open>
  Claim C10. When the estimation reaches the initial guess (valid predictor mode, a time
  point, convertible units) and the guess computed holds a NaN, the estimator returns the
  coefficient set that maps the date to that guess, with no error and no warning. The
  result is the same whatever the minimiser of the environment is, also one that always
  raises: the minimiser is not invoked.
\<close>

theorem estimate_nan_initial_guess:
  assumes "check_predictor_of_mean_flag (est_predictor_of_mean_flag self) = Inr ()"
    and "first_date forecast = Inr date"
    and "convert_units env historic_forecast (est_desired_units self) = Inr historic'"
    and "convert_units env truth (est_desired_units self) = Inr truth'"
    and "select_predictor (est_predictor_of_mean_flag self) historic' = Inr (n, predictor)"
    and "compute_initial_guess env (statsmodels_found self) truth' predictor
           (est_predictor_of_mean_flag self) ESTIMATE_COEFFICIENTS_FROM_LINEAR_MODEL_FLAG n
         = Inr guess"
    and "np_any_isnan guess"
  shows "outcome (estimate_coefficients_for_ngr (env\<lparr>scipy_minimize := m\<rparr>) self forecast
                    historic_forecast truth)
         = Inr ([date \<mapsto> guess], [])"
  using assms
  by (simp add: estimate_coefficients_for_ngr_def estimate_from_def bind_err_def Let_def)

lemma example_estimator_sel:
  "est_predictor_of_mean_flag example_estimator = ''mean''"
  "est_desired_units example_estimator = ''celsius''"
  "est_distribution example_estimator = ''gaussian''"
  "statsmodels_found example_estimator = False"
  by (simp_all add: example_estimator_def estimator_init_def example_libs_def)

lemma lower_mean: "lower ''mean'' = ''mean''"
  by (simp add: lower_def lower_char_def)

lemma nan_historic_converted:
  "convert_units example_libs nan_historic_forecast ''celsius''
     = Inr (nan_historic_forecast\<lparr>units := ''celsius''\<rparr>)"
  by (simp add: convert_units_def example_libs_def nan_historic_forecast_def fsub_def)

lemma one_point_truth_converted:
  "convert_units example_libs one_point_truth ''celsius''
     = Inr (one_point_truth\<lparr>units := ''celsius'', data := [[Fin 1]]\<rparr>)"
  by (simp add: convert_units_def example_libs_def one_point_truth_def fsub_def)

lemma nan_select:
  "select_predictor ''mean'' (nan_historic_forecast\<lparr>units := ''celsius''\<rparr>)
     = Inr (None, nan_historic_forecast\<lparr>units := ''celsius'', realization_points := [0],
                                           data := [[NaN]]\<rparr>)"
  by (simp add: select_predictor_def lower_mean collapsed_def nan_historic_forecast_def
      mean_of_def fsum_def)

lemma nan_guess:
  "compute_initial_guess example_libs False
     (one_point_truth\<lparr>units := ''celsius'', data := [[Fin 1]]\<rparr>)
     (nan_historic_forecast\<lparr>units := ''celsius'', realization_points := [0],
                              data := [[NaN]]\<rparr>)
     ''mean'' ESTIMATE_COEFFICIENTS_FROM_LINEAR_MODEL_FLAG None
   = Inr [Fin 1, Fin 1, NaN, NaN]"
  by (simp add: compute_initial_guess_def lower_mean ESTIMATE_COEFFICIENTS_FROM_LINEAR_MODEL_FLAG_def
      flatten_def combined_not_nan_def one_point_truth_def nan_historic_forecast_def)

theorem estimate_nan_initial_guess_witness:
  "outcome (estimate_coefficients_for_ngr
              (example_libs\<lparr>scipy_minimize := (\<lambda>f x0 k. Inl (ValueError ''never'' []))\<rparr>)
              example_estimator two_member_forecast nan_historic_forecast one_point_truth)
     = Inr ([0 \<mapsto> [Fin 1, Fin 1, NaN, NaN]], [])
   \<and> np_any_isnan [Fin 1, Fin 1, NaN, NaN]"
proof -
  have c: "check_predictor_of_mean_flag (est_predictor_of_mean_flag example_estimator) = Inr ()"
    by (simp add: example_estimator_sel check_predictor_of_mean_flag_def lower_mean)
  have d: "first_date two_member_forecast = Inr 0"
    by (simp add: first_date_def two_member_forecast_def)
  have n: "np_any_isnan [Fin 1, Fin 1, NaN, NaN]"
    by (simp add: np_any_isnan_def)
  let ?h = "nan_historic_forecast\<lparr>units := ''celsius''\<rparr>"
  let ?t = "one_point_truth\<lparr>units := ''celsius'', data := [[Fin 1]]\<rparr>"
  let ?p = "nan_historic_forecast\<lparr>units := ''celsius'', realization_points := [0],
                                    data := [[NaN]]\<rparr>"
  have h: "convert_units example_libs nan_historic_forecast
             (est_desired_units example_estimator) = Inr ?h"
    by (simp add: example_estimator_sel nan_historic_converted)
  have t: "convert_units example_libs one_point_truth
             (est_desired_units example_estimator) = Inr ?t"
    by (simp add: example_estimator_sel one_point_truth_converted)
  have s: "select_predictor (est_predictor_of_mean_flag example_estimator) ?h
             = Inr (None, ?p)"
    by (simp add: example_estimator_sel nan_select)
  have g: "compute_initial_guess example_libs (statsmodels_found example_estimator) ?t ?p
             (est_predictor_of_mean_flag example_estimator)
             ESTIMATE_COEFFICIENTS_FROM_LINEAR_MODEL_FLAG None
           = Inr [Fin 1, Fin 1, NaN, NaN]"
    by (simp add: example_estimator_sel nan_guess)
  from estimate_nan_initial_guess
    [where self = example_estimator and env = example_libs and forecast = two_member_forecast
       and historic_forecast = nan_historic_forecast and truth = one_point_truth
       and date = 0 and historic' = ?h and truth' = ?t and n = None and predictor = ?p
       and guess = "[Fin 1, Fin 1, NaN, NaN]"
       and m = "\<lambda>f x0 k. Inl (ValueError ''never'' [])",
     OF c d h t s g n] n
  show ?thesis by simp
qed




lemma check_mean: "check_predictor_of_mean_flag ''mean'' = Inr ()"
  by (simp add: check_predictor_of_mean_flag_def lower_mean)








subsection \<open>Unsupported distributions\<close>

text \<open>
  The minimiser refuses a distribution that is not a key of its table with a
  \<^verbatim>\<open>KeyError\<close> whose message is formatted with that name.
\<close>

lemma wrapper_unsupported_distribution:
  assumes "distribution \<notin> set [''gaussian'', ''truncated gaussian'']"
  shows "crps_minimiser_wrapper env initial_guess forecast_predictor truth forecast_var flag
           distribution = Inl (unsupported_distribution distribution)"
    and "names_value (unsupported_distribution distribution) distribution"
  using assms
  by (simp_all add: crps_minimiser_wrapper_def minimisation_dict_def names_value_def
      unsupported_distribution_def)

text \<open>
  Claim C2, at the controller. With a valid predictor mode and a supported calibration
  method, a distribution outside the two names makes \<^verbatim>\<open>process\<close> fail with the
  \<^verbatim>\<open>UnboundLocalError\<close> of reading \<^verbatim>\<open>optimised_coeffs\<close>: the test of the
  distribution has no \<^verbatim>\<open>else\<close>. The message names the variable; it names the
  distribution only if the distribution is called \<^verbatim>\<open>optimised_coeffs\<close>.
\<close>

theorem process_unsupported_distribution:
  assumes "check_predictor_of_mean_flag (ec_predictor_of_mean_flag self) = Inr ()"
    and "format_calibration_method (calibration_method self)
           \<in> set [''ensemble model output statistics'', ''nonhomogeneous gaussian regression'']"
    and "format_calibration_method (ec_distribution self)
           \<notin> set [''gaussian'', ''truncated gaussian'']"
  shows "process env self forecast historic_forecast truth
           = Inl (unbound_local ''optimised_coeffs'')
         \<and> (names_value (unbound_local ''optimised_coeffs'') (ec_distribution self)
              \<longleftrightarrow> ec_distribution self = ''optimised_coeffs'')"
  using assms
  by (auto simp: process_def bind_err_def names_value_def unbound_local_def)

theorem process_unsupported_distribution_witness:
  "process example_libs
     \<lparr>calibration_method = ''ensemble model output statistics'', ec_distribution = ''gamma'',
      ec_desired_units = ''celsius'', ec_predictor_of_mean_flag = ''mean''\<rparr>
     two_member_forecast two_member_forecast one_point_truth
   = Inl (unbound_local ''optimised_coeffs'')
   \<and> \<not> names_value (unbound_local ''optimised_coeffs'') ''gamma''"
proof -
  let ?self = "\<lparr>calibration_method = ''ensemble model output statistics'',
                 ec_distribution = ''gamma'', ec_desired_units = ''celsius'',
                 ec_predictor_of_mean_flag = ''mean''\<rparr>"
  have c: "check_predictor_of_mean_flag (ec_predictor_of_mean_flag ?self) = Inr ()"
    by (simp add: check_mean)
  have m: "format_calibration_method (calibration_method ?self)
           \<in> set [''ensemble model output statistics'', ''nonhomogeneous gaussian regression'']"
    by (simp add: format_calibration_method_def lower_def lower_char_def)
  have d: "format_calibration_method (ec_distribution ?self)
           \<notin> set [''gaussian'', ''truncated gaussian'']"
    by (simp add: format_calibration_method_def lower_def lower_char_def)
  from process_unsupported_distribution [OF c m d, of example_libs two_member_forecast
         two_member_forecast one_point_truth]
  show ?thesis by simp
qed

subsection \<open>The sentinel loss of the objective functions\<close>




lemma flt_total: "\<not> isnan a \<Longrightarrow> \<not> isnan b \<Longrightarrow> \<not> flt a b \<Longrightarrow> \<not> flt b a \<Longrightarrow> a = b"
  by (cases a; cases b; simp)














subsection \<open>The initial guess from a linear regression\<close>









lemma sum_residual_squares:
  "length xs = length ys \<Longrightarrow>
   sum_list (map2 (\<lambda>x y. (y - (a + b * x)) * (y - (a + b * x))) xs ys)
     = sum_list (map (\<lambda>y. y * y) ys) - 2 * a * sum_list ys
       - 2 * b * sum_list (map2 (*) xs ys) + real (length xs) * a * a
       + 2 * a * b * sum_list xs + b * b * sum_list (map (\<lambda>x. x * x) xs)"
  for a b :: real
  by (induction xs ys rule: list_induct2) (simp_all add: algebra_simps)

lemma sum_line_squares:
  "sum_list (map (\<lambda>x. (u + v * x) * (u + v * x)) xs)
     = real (length xs) * u * u + 2 * u * v * sum_list xs
       + v * v * sum_list (map (\<lambda>x. x * x) xs)"
  for u v :: real
  by (induction xs) (simp_all add: algebra_simps)

lemma ols_normal_equations:
  assumes "xs \<noteq> []" and "ols_denominator xs \<noteq> 0"
  shows "real (length xs) * ols_intercept xs ys + ols_slope xs ys * sum_list xs = sum_list ys"
    and "ols_intercept xs ys * sum_list xs
           + ols_slope xs ys * sum_list (map (\<lambda>x. x * x) xs) = sum_list (map2 (*) xs ys)"
proof -
  let ?n = "real (length xs)"
  have n: "?n \<noteq> 0" using assms(1) by simp
  show 1: "?n * ols_intercept xs ys + ols_slope xs ys * sum_list xs = sum_list ys"
    unfolding ols_intercept_def using n by (simp add: field_simps)
  have s: "ols_slope xs ys * ols_denominator xs
             = ?n * sum_list (map2 (*) xs ys) - sum_list xs * sum_list ys"
    unfolding ols_slope_def using assms(2) by simp
  have i: "?n * ols_intercept xs ys = sum_list ys - ols_slope xs ys * sum_list xs"
    using 1 by simp
  have "?n * (ols_intercept xs ys * sum_list xs
           + ols_slope xs ys * sum_list (map (\<lambda>x. x * x) xs))
        = (?n * ols_intercept xs ys) * sum_list xs
           + ols_slope xs ys * (?n * sum_list (map (\<lambda>x. x * x) xs))"
    by (simp add: algebra_simps)
  also have "\<dots> = (sum_list ys - ols_slope xs ys * sum_list xs) * sum_list xs
           + ols_slope xs ys * (?n * sum_list (map (\<lambda>x. x * x) xs))"
    by (simp only: i)
  also have "\<dots> = sum_list xs * sum_list ys + ols_slope xs ys * ols_denominator xs"
    by (simp add: ols_denominator_def algebra_simps)
  also have "\<dots> = ?n * sum_list (map2 (*) xs ys)"
    using s by simp
  finally show "ols_intercept xs ys * sum_list xs
           + ols_slope xs ys * sum_list (map (\<lambda>x. x * x) xs) = sum_list (map2 (*) xs ys)"
    using n by simp
qed

lemma ols_least_squares:
  assumes len: "length xs = length ys" and ne: "xs \<noteq> []" and den: "ols_denominator xs \<noteq> 0"
  shows "sum_list (map2 (\<lambda>x y. (y - (ols_intercept xs ys + ols_slope xs ys * x))
                               * (y - (ols_intercept xs ys + ols_slope xs ys * x))) xs ys)
         \<le> sum_list (map2 (\<lambda>x y. (y - (a + b * x)) * (y - (a + b * x))) xs ys)"
proof -
  let ?i = "ols_intercept xs ys" and ?s = "ols_slope xs ys"
  let ?n = "real (length xs)"
  let ?sx = "sum_list xs" and ?sy = "sum_list ys"
  let ?sxy = "sum_list (map2 (*) xs ys)" and ?sxx = "sum_list (map (\<lambda>x. x * x) xs)"
  have e1: "?sy = ?n * ?i + ?s * ?sx" and e2: "?sxy = ?i * ?sx + ?s * ?sxx"
    using ols_normal_equations[OF ne den, of ys] by simp_all
  have "sum_list (map2 (\<lambda>x y. (y - (a + b * x)) * (y - (a + b * x))) xs ys)
        - sum_list (map2 (\<lambda>x y. (y - (?i + ?s * x)) * (y - (?i + ?s * x))) xs ys)
        = sum_list (map (\<lambda>x. ((a - ?i) + (b - ?s) * x) * ((a - ?i) + (b - ?s) * x)) xs)"
    unfolding sum_residual_squares[OF len] sum_line_squares
    by (subst (1 2) e1, subst (1 2) e2) (simp add: algebra_simps)
  moreover have "0 \<le> sum_list (map (\<lambda>x. ((a - ?i) + (b - ?s) * x) * ((a - ?i) + (b - ?s) * x)) xs)"
    by (rule sum_list_nonneg) auto
  ultimately show ?thesis by linarith
qed



end
